theory Spec2Isabelle
  imports Complex_Main "HOL-Library.Log_Nat"
begin

section \<open>JavaScript numbers\<close>

text \<open>
  The identifier check of \<^verbatim>\<open>operations.js\<close> and the chunk size of \<^verbatim>\<open>cli.js\<close> are
  JavaScript Numbers: IEEE 754 binary64 values. A finite Number is carried as the rational it
  denotes (every binary64 value is a rational); the two zeros are one value, since no
  operation used here tells them apart.
\<close>

datatype jsnum = NaN | NegInf | PosInf | Fin rat

text \<open>Powers of two with an integer exponent.\<close>

definition pow2 :: "int \<Rightarrow> rat" where
  "pow2 e = (if 0 \<le> e then 2 ^ nat e else 1 / 2 ^ nat (- e))"

text \<open>\<open>floor_log2 a\<close> is the exponent \<open>e\<close> with \<open>2^e \<le> a < 2^(e+1)\<close>, for \<open>a > 0\<close>.\<close>

definition floor_log2 :: "rat \<Rightarrow> int" where
  "floor_log2 a =
     (let (p, q) = quotient_of a; e0 = bitlen p - bitlen q
      in if pow2 e0 \<le> a then e0 else e0 - 1)"

definition round_half_even :: "rat \<Rightarrow> int" where
  "round_half_even x =
     (let f = \<lfloor>x\<rfloor>; d = x - of_int f
      in if d < 1 / 2 then f else if 1 / 2 < d then f + 1 else if even f then f else f + 1)"

text \<open>
  The Number value for a mathematical value: round to nearest binary64, ties to even;
  53 bits of precision, least exponent \<open>-1022\<close> (below it the subnormals, spaced
  \<open>2^-1074\<close>), and infinity when the rounded value reaches \<open>2^1024\<close>, that is,
  when its exponent is 1024 or more.
\<close>

definition to_double :: "rat \<Rightarrow> jsnum" where
  "to_double x =
     (if x = 0 then Fin 0
      else let a = \<bar>x\<bar>;
               e = max (floor_log2 a) (- 1022);
               q = pow2 (e - 52);
               r = of_int (round_half_even (a / q)) * q
           in if r \<noteq> 0 \<and> 1024 \<le> floor_log2 r then (if 0 < x then PosInf else NegInf)
              else Fin (if 0 < x then r else - r))"

text \<open>The relational operators \<^verbatim>\<open>>\<close> and \<^verbatim>\<open><\<close>: false whenever an operand is NaN.\<close>

fun js_lt :: "jsnum \<Rightarrow> jsnum \<Rightarrow> bool" where
  "js_lt NaN _ = False"
| "js_lt _ NaN = False"
| "js_lt PosInf _ = False"
| "js_lt _ NegInf = False"
| "js_lt NegInf _ = True"
| "js_lt _ PosInf = True"
| "js_lt (Fin a) (Fin b) = (a < b)"

definition js_gt :: "jsnum \<Rightarrow> jsnum \<Rightarrow> bool" where
  "js_gt a b = js_lt b a"

text \<open>Truthiness of a Number: \<^verbatim>\<open>0\<close> and \<^verbatim>\<open>NaN\<close> are falsy.\<close>

fun truthy :: "jsnum \<Rightarrow> bool" where
  "truthy NaN = False"
| "truthy (Fin x) = (x \<noteq> 0)"
| "truthy _ = True"

text \<open>Division and multiplication of Numbers, and \<^verbatim>\<open>Math.round\<close> (ties go up).\<close>

fun js_div :: "jsnum \<Rightarrow> jsnum \<Rightarrow> jsnum" where
  "js_div (Fin a) (Fin b) =
     (if b = 0 then (if a = 0 then NaN else if 0 < a then PosInf else NegInf)
      else to_double (a / b))"
| "js_div (Fin a) PosInf = Fin 0"
| "js_div (Fin a) NegInf = Fin 0"
| "js_div PosInf (Fin b) = (if 0 \<le> b then PosInf else NegInf)"
| "js_div NegInf (Fin b) = (if 0 \<le> b then NegInf else PosInf)"
| "js_div _ _ = NaN"

fun js_mul :: "jsnum \<Rightarrow> jsnum \<Rightarrow> jsnum" where
  "js_mul (Fin a) (Fin b) = to_double (a * b)"
| "js_mul NaN _ = NaN"
| "js_mul _ NaN = NaN"
| "js_mul (Fin a) PosInf = (if a = 0 then NaN else if 0 < a then PosInf else NegInf)"
| "js_mul (Fin a) NegInf = (if a = 0 then NaN else if 0 < a then NegInf else PosInf)"
| "js_mul PosInf (Fin b) = (if b = 0 then NaN else if 0 < b then PosInf else NegInf)"
| "js_mul NegInf (Fin b) = (if b = 0 then NaN else if 0 < b then NegInf else PosInf)"
| "js_mul PosInf PosInf = PosInf"
| "js_mul NegInf NegInf = PosInf"
| "js_mul _ _ = NegInf"

fun Math_round :: "jsnum \<Rightarrow> jsnum" where
  "Math_round (Fin x) = Fin (of_int \<lfloor>x + 1 / 2\<rfloor>)"
| "Math_round v = v"

section \<open>\<^verbatim>\<open>Number(string)\<close>\<close>

text \<open>
  \<^verbatim>\<open>Number(id)\<close> applied to a string is the StringToNumber conversion of ECMAScript:
  white space and line terminators are stripped at both ends; the empty string is \<open>0\<close>;
  the rest is a signed decimal literal (digits, an optional fraction, an optional exponent,
  or \<^verbatim>\<open>Infinity\<close>) or an unsigned binary, octal or hexadecimal integer literal; anything
  else is \<open>NaN\<close>. The value is rounded to binary64 (exactly, as V8 does).
  A \<^typ>\<open>char\<close> is one code unit below 256; of the white space of ECMAScript that
  leaves TAB, LF, VT, FF, CR, SP and NBSP.
\<close>

definition isStrWhiteSpaceChar :: "char \<Rightarrow> bool" where
  "isStrWhiteSpaceChar c = ((of_char c :: int) \<in> {9, 10, 11, 12, 13, 32, 160})"

definition trim :: "string \<Rightarrow> string" where
  "trim s = rev (dropWhile isStrWhiteSpaceChar (rev (dropWhile isStrWhiteSpaceChar s)))"

definition digit_of :: "int \<Rightarrow> char \<Rightarrow> int option" where
  "digit_of base c =
     (let n = (of_char c :: int);
          v = (if 48 \<le> n \<and> n \<le> 57 then Some (n - 48)
               else if 97 \<le> n \<and> n \<le> 102 then Some (n - 87)
               else if 65 \<le> n \<and> n \<le> 70 then Some (n - 55)
               else None)
      in (case v of None \<Rightarrow> None | Some d \<Rightarrow> if d < base then Some d else None))"

definition isDecimalDigit :: "char \<Rightarrow> bool" where
  "isDecimalDigit c = (digit_of 10 c \<noteq> None)"

text \<open>The value of a digit string in a base; \<open>None\<close> on a character that is no digit of it.\<close>

fun digits_acc :: "int \<Rightarrow> int \<Rightarrow> string \<Rightarrow> int option" where
  "digits_acc base acc [] = Some acc"
| "digits_acc base acc (c # cs) =
     (case digit_of base c of
        None \<Rightarrow> None
      | Some d \<Rightarrow> digits_acc base (acc * base + d) cs)"

definition digits_val :: "int \<Rightarrow> string \<Rightarrow> int option" where
  "digits_val base s = (if s = [] then None else digits_acc base 0 s)"

text \<open>ExponentPart, optional: \<^verbatim>\<open>e\<close> or \<^verbatim>\<open>E\<close>, an optional sign, at least one digit.\<close>

definition ExponentPart_opt :: "string \<Rightarrow> int option" where
  "ExponentPart_opt s =
     (case s of
        [] \<Rightarrow> Some 0
      | c # r \<Rightarrow>
          if c = CHR ''e'' \<or> c = CHR ''E'' then
            (case r of
               [] \<Rightarrow> None
             | d # r' \<Rightarrow>
                 if d = CHR ''+'' then digits_val 10 r'
                 else if d = CHR ''-'' then map_option uminus (digits_val 10 r')
                 else digits_val 10 r)
          else None)"

text \<open>The mathematical value of digits \<open>ds\<close> scaled by \<open>10^e\<close>.\<close>

definition scale10 :: "int \<Rightarrow> int \<Rightarrow> rat" where
  "scale10 m e = (if 0 \<le> e then of_int m * 10 ^ nat e else of_int m / 10 ^ nat (- e))"

definition StrUnsignedDecimalLiteral :: "string \<Rightarrow> rat option" where
  "StrUnsignedDecimalLiteral s =
     (let ip = takeWhile isDecimalDigit s; r1 = dropWhile isDecimalDigit s
      in case r1 of
           [] \<Rightarrow> map_option of_int (digits_val 10 ip)
         | c # r2 \<Rightarrow>
             if c = CHR ''.'' then
               (let fp = takeWhile isDecimalDigit r2; r3 = dropWhile isDecimalDigit r2
                in if ip = [] \<and> fp = [] then None
                   else (case (digits_acc 10 0 (ip @ fp), ExponentPart_opt r3) of
                           (Some m, Some e) \<Rightarrow> Some (scale10 m (e - int (length fp)))
                         | _ \<Rightarrow> None))
             else if ip = [] then None
             else (case (digits_acc 10 0 ip, ExponentPart_opt r1) of
                     (Some m, Some e) \<Rightarrow> Some (scale10 m e)
                   | _ \<Rightarrow> None))"

definition StrDecimalLiteral :: "string \<Rightarrow> jsnum" where
  "StrDecimalLiteral s =
     (let (neg, u) = (case s of
                        [] \<Rightarrow> (False, s)
                      | c # r \<Rightarrow> if c = CHR ''+'' then (False, r)
                                 else if c = CHR ''-'' then (True, r) else (False, s))
      in if u = ''Infinity'' then (if neg then NegInf else PosInf)
         else (case StrUnsignedDecimalLiteral u of
                 None \<Rightarrow> NaN
               | Some v \<Rightarrow> to_double (if neg then - v else v)))"

definition NonDecimalIntegerLiteral :: "string \<Rightarrow> int option" where
  "NonDecimalIntegerLiteral s =
     (case s of
        z # p # r \<Rightarrow>
          if z \<noteq> CHR ''0'' then None
          else if p = CHR ''x'' \<or> p = CHR ''X'' then digits_val 16 r
          else if p = CHR ''o'' \<or> p = CHR ''O'' then digits_val 8 r
          else if p = CHR ''b'' \<or> p = CHR ''B'' then digits_val 2 r
          else None
      | _ \<Rightarrow> None)"

definition Number :: "string \<Rightarrow> jsnum" where
  "Number s =
     (let t = trim s
      in if t = [] then Fin 0
         else (case NonDecimalIntegerLiteral t of
                 Some n \<Rightarrow> to_double (of_int n)
               | None \<Rightarrow> StrDecimalLiteral t))"

section \<open>The identifier check\<close>

text \<open>
  \<^verbatim>\<open>function isValid(id) { return Number(id) > 0 && Number(id) < 100000000; }\<close>
\<close>

definition isValid :: "string \<Rightarrow> bool" where
  "isValid rid = (js_gt (Number rid) (Fin 0) \<and> js_lt (Number rid) (Fin 100000000))"

section \<open>Records, reports and outcomes\<close>

text \<open>
  A MARC record (\<^verbatim>\<open>marc-record-js\<close>) is a value of a type \<open>'r\<close>; the validator's report
  is an object whose \<^verbatim>\<open>validators\<close> property has some type \<open>'v\<close>, and to which the batch
  walk later adds an \<^verbatim>\<open>id\<close> property. \<^verbatim>\<open>revalidationResults\<close> is the empty string or
  a second report. The object that \<^verbatim>\<open>validateRecord\<close> returns has four properties;
  \<^verbatim>\<open>fix\<close> adds \<^verbatim>\<open>updateResponse\<close> to the same object, so the field is optional here.
\<close>

record 'v report =
  validators :: 'v
  id_prop :: "string option"

datatype 'v revalidation = EmptyString | Report "'v report"

record ('r, 'v, 'u) outcome =
  originalRecord :: 'r
  results :: "'v report"
  revalidationResults :: "'v revalidation"
  validatedRecord :: 'r
  updateResponse :: "'u option"

section \<open>Errors\<close>

text \<open>
  \<open>InvalidId\<close> is \<^verbatim>\<open>new Error(`Invalid record id: ${id}`)\<close>. A value that a collaborator
  throws (type \<open>'e\<close>) is passed on unchanged; the constructor records which call threw it.
  \<open>TypeError\<close> is what reading a property of \<^verbatim>\<open>null\<close> throws, and \<open>NoValidIds\<close> is
  \<^verbatim>\<open>new Error('File does not contain valid record ids.')\<close>.
\<close>

datatype 'e error =
    InvalidId string
  | FetchFailed 'e
  | ValidatorFailure 'e
  | UpdateFailed 'e
  | TypeError
  | NoValidIds

section \<open>Collaborators, log and state\<close>

text \<open>
  What the program writes to its logger. The entries carry the values that the source
  interpolates into the message.
\<close>

datatype ('e, 'd) message =
    NotWithinTime "string option"
  | Done
  | RecordFailed string "'e error"
  | Saved 'd string
  | StoreFailed 'e
  | Progress int int jsnum
  | ReadIds nat jsnum

text \<open>
  The trace lists, in order, the calls to the collaborators and to the logger.
  \<open>AfterSuccessfulUpdate\<close> stands for the call \<^verbatim>\<open>afterSuccessfulUpdate(res, batchId)\<close>,
  which prints the record and logs the success; it is not awaited and whatever it throws is
  dropped with its promise.
\<close>

datatype ('r, 'v, 'u, 'e, 'd) event =
    LoadRecord string
  | Validate 'r
  | UpdateRecord 'r
  | SaveToDb "('r, 'v, 'u) outcome option list" string
  | Sleep nat
  | AfterSuccessfulUpdate "('r, 'v, 'u) outcome" string
  | LoggerInfo "('e, 'd) message"
  | LoggerError "('e, 'd) message"

text \<open>
  The collaborators act on a world \<open>'w\<close> (the catalog, the backup store, the clock).
  \<^item> \<^verbatim>\<open>client.loadRecord\<close>, \<^verbatim>\<open>validate\<close>, \<^verbatim>\<open>client.updateRecord\<close> (\<^verbatim>\<open>config.js\<close>):
    each throws or returns; the validator returns its report and the record as it has
    mutated it.
  \<^item> \<^verbatim>\<open>Record.clone\<close>, \<^verbatim>\<open>Record.isEqual\<close> (\<^verbatim>\<open>marc-record-js\<close>).
  \<^item> \<^verbatim>\<open>saveToDb\<close> (\<^verbatim>\<open>db.js\<close>) starts a write and returns a promise; \<open>dbSettled\<close> tells,
    when the event loop runs, whether the oldest write in flight has settled, and with what.
  \<^item> \<^verbatim>\<open>isWithinTimeinterval\<close>, \<^verbatim>\<open>sleep\<close>, \<^verbatim>\<open>generateBatchId\<close>: helpers that
    \<^verbatim>\<open>cli.js\<close> imports from \<^verbatim>\<open>operations.js\<close>; they read or advance the clock.
  \<^item> \<open>argv_t\<close>, \<open>argv_c\<close>: the options \<^verbatim>\<open>timeinterval\<close> and \<^verbatim>\<open>chunksize\<close>.
\<close>

record ('r, 'v, 'u, 'e, 'd, 'w) env =
  loadRecord :: "string \<Rightarrow> 'w \<Rightarrow> ('e + 'r option) \<times> 'w"
  validate :: "'r \<Rightarrow> 'w \<Rightarrow> ('e + 'v report \<times> 'r) \<times> 'w"
  updateRecord :: "'r \<Rightarrow> 'w \<Rightarrow> ('e + 'u) \<times> 'w"
  clone :: "'r \<Rightarrow> 'r"
  isEqual :: "'r \<Rightarrow> 'r \<Rightarrow> bool"
  saveToDb :: "('r, 'v, 'u) outcome option list \<Rightarrow> string \<Rightarrow> 'w \<Rightarrow> 'w"
  dbSettled :: "'w \<Rightarrow> (('e + 'd) \<times> 'w) option"
  isWithinTimeinterval :: "string option \<Rightarrow> 'w \<Rightarrow> bool"
  sleep :: "nat \<Rightarrow> 'w \<Rightarrow> 'w"
  generateBatchId :: "'w \<Rightarrow> string \<times> 'w"
  argv_t :: "string option"
  argv_c :: jsnum

text \<open>
  The state of a run: the world, the trace, and the promises of \<^verbatim>\<open>saveToDb\<close> whose
  handlers (\<^verbatim>\<open>.then\<close>, \<^verbatim>\<open>.catch\<close>) have not run yet, each with the batch id its
  handler prints.
\<close>

record ('r, 'v, 'u, 'e, 'd, 'w) state =
  world :: 'w
  trace :: "('r, 'v, 'u, 'e, 'd) event list"
  pending :: "string list"

definition emit ::
  "('r, 'v, 'u, 'e, 'd) event \<Rightarrow> ('r, 'v, 'u, 'e, 'd, 'w) state \<Rightarrow> ('r, 'v, 'u, 'e, 'd, 'w) state" where
  "emit ev s = s\<lparr>trace := trace s @ [ev]\<rparr>"

section \<open>Awaiting\<close>

text \<open>
  JavaScript runs a function to its next \<^verbatim>\<open>await\<close> without interruption; only there do
  the handlers of promises that have settled meanwhile run. For the writes started by
  \<^verbatim>\<open>saveToDb\<close> the handlers are

  \<^verbatim>\<open>.then(dbResults => { logger.info(`Saved ${dbResults.insertedCount} records ...`); })\<close>
  \<^verbatim>\<open>.catch(err => logger.error(err))\<close>

  \<open>run_handlers\<close> runs them for the writes that have settled, oldest first.
\<close>

fun run_handlers ::
  "('r, 'v, 'u, 'e, 'd, 'w) env \<Rightarrow> string list \<Rightarrow> 'w \<Rightarrow>
     string list \<times> 'w \<times> ('r, 'v, 'u, 'e, 'd) event list" where
  "run_handlers env [] w = ([], w, [])"
| "run_handlers env (batchId # rest) w =
     (case dbSettled env w of
        None \<Rightarrow> (batchId # rest, w, [])
      | Some (settled, w') \<Rightarrow>
          (let (rest', w'', evs) = run_handlers env rest w'
           in (rest', w'',
               (case settled of
                  Inr dbResults \<Rightarrow> LoggerInfo (Saved dbResults batchId)
                | Inl err \<Rightarrow> LoggerError (StoreFailed err)) # evs)))"

definition await ::
  "('r, 'v, 'u, 'e, 'd, 'w) env \<Rightarrow> ('r, 'v, 'u, 'e, 'd, 'w) state \<Rightarrow> ('r, 'v, 'u, 'e, 'd, 'w) state" where
  "await env s =
     (let (rest, w, evs) = run_handlers env (pending s) (world s)
      in s\<lparr>world := w, trace := trace s @ evs, pending := rest\<rparr>)"

text \<open>An awaited call of a collaborator: the call, then the event loop.\<close>

definition await_loadRecord ::
  "('r, 'v, 'u, 'e, 'd, 'w) env \<Rightarrow> string \<Rightarrow> ('r, 'v, 'u, 'e, 'd, 'w) state \<Rightarrow>
     ('e + 'r option) \<times> ('r, 'v, 'u, 'e, 'd, 'w) state" where
  "await_loadRecord env rid s =
     (let (r, w) = loadRecord env rid (world s)
      in (r, await env (emit (LoadRecord rid) (s\<lparr>world := w\<rparr>))))"

definition await_validate ::
  "('r, 'v, 'u, 'e, 'd, 'w) env \<Rightarrow> 'r \<Rightarrow> ('r, 'v, 'u, 'e, 'd, 'w) state \<Rightarrow>
     ('e + 'v report \<times> 'r) \<times> ('r, 'v, 'u, 'e, 'd, 'w) state" where
  "await_validate env record s =
     (let (r, w) = validate env record (world s)
      in (r, await env (emit (Validate record) (s\<lparr>world := w\<rparr>))))"

definition await_updateRecord ::
  "('r, 'v, 'u, 'e, 'd, 'w) env \<Rightarrow> 'r \<Rightarrow> ('r, 'v, 'u, 'e, 'd, 'w) state \<Rightarrow>
     ('e + 'u) \<times> ('r, 'v, 'u, 'e, 'd, 'w) state" where
  "await_updateRecord env record s =
     (let (r, w) = updateRecord env record (world s)
      in (r, await env (emit (UpdateRecord record) (s\<lparr>world := w\<rparr>))))"

definition await_sleep ::
  "('r, 'v, 'u, 'e, 'd, 'w) env \<Rightarrow> nat \<Rightarrow> ('r, 'v, 'u, 'e, 'd, 'w) state \<Rightarrow>
     ('r, 'v, 'u, 'e, 'd, 'w) state" where
  "await_sleep env ms s = await env (emit (Sleep ms) (s\<lparr>world := sleep env ms (world s)\<rparr>))"

section \<open>\<^verbatim>\<open>validateRecord\<close> and \<^verbatim>\<open>fix\<close> (\<^verbatim>\<open>operations.js\<close>)\<close>

text \<open>
  \<^verbatim>\<open>validateRecord(id)\<close> throws on an invalid id before its \<^verbatim>\<open>try\<close>; it returns
  \<^verbatim>\<open>null\<close> (\<open>None\<close>) when the catalog has no record; its \<^verbatim>\<open>catch\<close> rethrows.
  The validator mutates \<^verbatim>\<open>record\<close> in place, so \<^verbatim>\<open>validatedRecord\<close> is the record
  after the last validation.
\<close>

definition validateRecord ::
  "('r, 'v, 'u, 'e, 'd, 'w) env \<Rightarrow> string \<Rightarrow> ('r, 'v, 'u, 'e, 'd, 'w) state \<Rightarrow>
     ('e error + ('r, 'v, 'u) outcome option) \<times> ('r, 'v, 'u, 'e, 'd, 'w) state" where
  "validateRecord env rid s =
     (if \<not> isValid rid then (Inl (InvalidId rid), s)
      else
        (case await_loadRecord env rid s of
           (Inl e, s1) \<Rightarrow> (Inl (FetchFailed e), s1)
         | (Inr None, s1) \<Rightarrow> (Inr None, s1)
         | (Inr (Some record), s1) \<Rightarrow>
             (let originalRec = clone env record
              in (case await_validate env record s1 of
                    (Inl e, s2) \<Rightarrow> (Inl (ValidatorFailure e), s2)
                  | (Inr (results1, record1), s2) \<Rightarrow>
                      if \<not> isEqual env originalRec record1 then
                        (case await_validate env record1 s2 of
                           (Inl e, s3) \<Rightarrow> (Inl (ValidatorFailure e), s3)
                         | (Inr (results2, record2), s3) \<Rightarrow>
                             (Inr (Some \<lparr>originalRecord = originalRec,
                                         results = results1,
                                         revalidationResults = Report results2,
                                         validatedRecord = record2,
                                         updateResponse = None\<rparr>), s3))
                      else
                        (Inr (Some \<lparr>originalRecord = originalRec,
                                    results = results1,
                                    revalidationResults = EmptyString,
                                    validatedRecord = record1,
                                    updateResponse = None\<rparr>), s2)))))"

text \<open>
  \<^verbatim>\<open>fix(id)\<close>, here \<open>fix_record\<close> (\<open>fix\<close> is a keyword of Isar):
  \<^verbatim>\<open>const { validatedRecord } = validationRes\<close> throws a TypeError when
  \<^verbatim>\<open>validationRes\<close> is \<^verbatim>\<open>null\<close>; the \<^verbatim>\<open>catch\<close> rethrows.
\<close>

definition fix_record ::
  "('r, 'v, 'u, 'e, 'd, 'w) env \<Rightarrow> string \<Rightarrow> ('r, 'v, 'u, 'e, 'd, 'w) state \<Rightarrow>
     ('e error + ('r, 'v, 'u) outcome) \<times> ('r, 'v, 'u, 'e, 'd, 'w) state" where
  "fix_record env rid s =
     (case validateRecord env rid s of (r, s0) \<Rightarrow>
        (case (r, await env s0) of
           (Inl e, s1) \<Rightarrow> (Inl e, s1)
         | (Inr None, s1) \<Rightarrow> (Inl TypeError, s1)
         | (Inr (Some validationRes), s1) \<Rightarrow>
             (case await_updateRecord env (validatedRecord validationRes) s1 of
                (Inl e, s2) \<Rightarrow> (Inl (UpdateFailed e), s2)
              | (Inr response, s2) \<Rightarrow>
                  (Inr (validationRes\<lparr>updateResponse := Some response\<rparr>), s2))))"

section \<open>The batch walk (\<^verbatim>\<open>cli.js\<close>)\<close>

text \<open>
  The callback that \<^verbatim>\<open>fixAll\<close> maps over a chunk:

  \<^verbatim>\<open>async (id) => { try { let res = await fix(id); res.results['id'] = id;\<close>
  \<^verbatim>\<open>  afterSuccessfulUpdate(res, batchId); return res; }\<close>
  \<^verbatim>\<open>  catch (err) { logger.error(`Updating record ${id} failed: '${err}'`); } }\<close>

  After the \<^verbatim>\<open>catch\<close> the callback returns \<^verbatim>\<open>undefined\<close>: \<open>None\<close>.
\<close>

definition fix_callback ::
  "('r, 'v, 'u, 'e, 'd, 'w) env \<Rightarrow> string \<Rightarrow> string \<Rightarrow> ('r, 'v, 'u, 'e, 'd, 'w) state \<Rightarrow>
     ('r, 'v, 'u) outcome option \<times> ('r, 'v, 'u, 'e, 'd, 'w) state" where
  "fix_callback env batchId rid s =
     (case fix_record env rid s of (r, s0) \<Rightarrow>
        (case (r, await env s0) of
           (Inr res, s1) \<Rightarrow>
             (let res' = res\<lparr>results := (results res)\<lparr>id_prop := Some rid\<rparr>\<rparr>
              in (Some res', emit (AfterSuccessfulUpdate res' batchId) s1))
         | (Inl err, s1) \<Rightarrow> (None, emit (LoggerError (RecordFailed rid err)) s1)))"

text \<open>
  \<^verbatim>\<open>await Promise.all(head.map(callback))\<close> resolves when every callback has resolved,
  with their results in the order of \<^verbatim>\<open>head\<close>. The callbacks of a chunk interleave at
  their awaits; the model runs them one after the other, in the order of \<^verbatim>\<open>head\<close>.
\<close>

fun Promise_all_map ::
  "('r, 'v, 'u, 'e, 'd, 'w) env \<Rightarrow> string \<Rightarrow> string list \<Rightarrow> ('r, 'v, 'u, 'e, 'd, 'w) state \<Rightarrow>
     ('r, 'v, 'u) outcome option list \<times> ('r, 'v, 'u, 'e, 'd, 'w) state" where
  "Promise_all_map env batchId [] s = ([], s)"
| "Promise_all_map env batchId (rid # rest) s =
     (let (r, s1) = fix_callback env batchId rid s;
          (rs, s2) = Promise_all_map env batchId rest s1
      in (r # rs, s2))"

text \<open>
  \<^verbatim>\<open>saveToDb(results, batchId).then(...).catch(...)\<close>: the write is started and its
  handlers are attached; nothing awaits the promise.
\<close>

definition call_saveToDb ::
  "('r, 'v, 'u, 'e, 'd, 'w) env \<Rightarrow> ('r, 'v, 'u) outcome option list \<Rightarrow> string \<Rightarrow>
     ('r, 'v, 'u, 'e, 'd, 'w) state \<Rightarrow> ('r, 'v, 'u, 'e, 'd, 'w) state" where
  "call_saveToDb env rs batchId s =
     (emit (SaveToDb rs batchId) (s\<lparr>world := saveToDb env rs batchId (world s)\<rparr>))
       \<lparr>pending := pending s @ [batchId]\<rparr>"

text \<open>
  The progress line: \<^verbatim>\<open>const done = total - head.length * tail.length;\<close>
  \<^verbatim>\<open>logger.info(`${done}/${total} (${Math.round(done / total * 100)} %) records processed.`)\<close>
\<close>

definition progress :: "int \<Rightarrow> 'a list \<Rightarrow> 'b list \<Rightarrow> ('e, 'd) message" where
  "progress total' head tail =
     (let done = total' - int (length head) * int (length tail)
      in Progress done total'
           (Math_round (js_mul (js_div (Fin (of_int done)) (Fin (of_int total'))) (Fin 100))))"

text \<open>
  \<^verbatim>\<open>fixAll(idChunks, total, batchId)\<close> calls itself, without awaiting the call, after the
  sleep and after each chunk; the walk is the chain of these calls. It need not end (the
  gate may stay closed), so the result is an option: \<open>None\<close> for a walk that never logs
  \<^verbatim>\<open>'Done.'\<close>, \<open>Some\<close> of the final state otherwise.
\<close>

partial_function (option) fixAll ::
  "('r, 'v, 'u, 'e, 'd, 'w) env \<Rightarrow> string list list \<Rightarrow> int \<Rightarrow> string \<Rightarrow>
     ('r, 'v, 'u, 'e, 'd, 'w) state \<Rightarrow> ('r, 'v, 'u, 'e, 'd, 'w) state option" where
  "fixAll env idChunks total' batchId s =
     (if \<not> isWithinTimeinterval env (argv_t env) (world s) then
        fixAll env idChunks total' batchId
          (await_sleep env (60000 * 20) (emit (LoggerInfo (NotWithinTime (argv_t env))) s))
      else
        (case idChunks of
           [] \<Rightarrow> Some (emit (LoggerInfo Done) s)
         | head # tail \<Rightarrow>
             (case Promise_all_map env batchId head s of (rs, s0) \<Rightarrow>
                fixAll env tail total' batchId
                  (emit (LoggerInfo (progress total' head tail))
                     (call_saveToDb env rs batchId (await env s0))))))"

section \<open>\<^verbatim>\<open>_.chunk\<close> and the \<^verbatim>\<open>fixmultiple\<close> command\<close>

text \<open>
  \<^verbatim>\<open>_.chunk(array, size)\<close> of lodash 4: \<^verbatim>\<open>size = max(toInteger(size), 0)\<close>; an empty
  array or a size below 1 gives no chunk; otherwise slices of \<^verbatim>\<open>size\<close> elements are taken
  from the left while the index is inside the array. \<^verbatim>\<open>toInteger\<close> maps NaN to 0 and an
  infinity to plus or minus \<^verbatim>\<open>MAX_INTEGER\<close>, and drops the fraction of a finite number.
\<close>

definition MAX_INTEGER :: int where
  "MAX_INTEGER = (2 ^ 53 - 1) * 2 ^ 971"

fun toInteger :: "jsnum \<Rightarrow> int" where
  "toInteger NaN = 0"
| "toInteger PosInf = MAX_INTEGER"
| "toInteger NegInf = - MAX_INTEGER"
| "toInteger (Fin x) = (if 0 \<le> x then \<lfloor>x\<rfloor> else \<lceil>x\<rceil>)"

function chunk_loop :: "'a list \<Rightarrow> nat \<Rightarrow> nat \<Rightarrow> 'a list list" where
  "chunk_loop array size' index =
     (if index < length array \<and> 0 < size'
      then take size' (drop index array) # chunk_loop array size' (index + size')
      else [])"
  by pat_completeness auto
termination
  by (relation "measure (\<lambda>(array, size', index). length array - index)") auto

declare chunk_loop.simps [simp del]

definition lodash_chunk :: "'a list \<Rightarrow> jsnum \<Rightarrow> 'a list list" where
  "lodash_chunk array size0 =
     (let size' = max (toInteger size0) 0
      in if length array = 0 \<or> size' < 1 then [] else chunk_loop array (nat size') 0)"

text \<open>\<^verbatim>\<open>String.prototype.split\<close> with a one-character separator.\<close>

fun split :: "char \<Rightarrow> string \<Rightarrow> string list" where
  "split sep [] = [[]]"
| "split sep (c # cs) =
     (if c = sep then [] # split sep cs
      else (case split sep cs of
              [] \<Rightarrow> [[c]]
            | part # parts \<Rightarrow> (c # part) # parts))"

text \<open>
  The ids of the input file:
  \<^verbatim>\<open>fs.readFileSync(file, 'utf8').split('\n').map(id => id.trim()).filter(id => isValid(id))\<close>
\<close>

definition read_ids :: "string \<Rightarrow> string list" where
  "read_ids contents = filter isValid (map trim (split (CHR 0x0A) contents))"

text \<open>
  The branch \<^verbatim>\<open>else if (argv.m)\<close> of the script, from the file's contents on:
  it throws when no valid id is left, takes \<^verbatim>\<open>argv.c || 5\<close> as the chunk size, logs what
  it read, chunks the ids, draws a batch id and starts the walk.
\<close>

definition fixmultiple ::
  "('r, 'v, 'u, 'e, 'd, 'w) env \<Rightarrow> string \<Rightarrow> ('r, 'v, 'u, 'e, 'd, 'w) state \<Rightarrow>
     'e error + ('r, 'v, 'u, 'e, 'd, 'w) state option" where
  "fixmultiple env contents s =
     (let ids = read_ids contents
      in if length ids < 1 then Inl NoValidIds
         else
           (let chunk = (if truthy (argv_c env) then argv_c env else Fin 5);
                s1 = emit (LoggerInfo (ReadIds (length ids) chunk)) s;
                idSets = lodash_chunk ids chunk;
                (batchId, w) = generateBatchId env (world s1)
            in Inr (fixAll env idSets (int (length ids)) batchId (s1\<lparr>world := w\<rparr>))))"

section \<open>A sample environment\<close>

text \<open>
  A small catalog for concrete runs. Records are numbers: the record of id \<^verbatim>\<open>1\<close> is one
  that the validator corrects (from 1 to 2), id \<^verbatim>\<open>3\<close> has no record, the fetch of id
  \<^verbatim>\<open>4\<close> fails, the validator throws on the record of id \<^verbatim>\<open>5\<close>, and the catalog
  refuses the update of the record of id \<^verbatim>\<open>7\<close>. The world is a clock, in minutes since
  midnight; when a time interval is configured it is 17-06. Backup writes settle at once.
\<close>

definition sample_loadRecord :: "string \<Rightarrow> nat \<Rightarrow> (string + nat option) \<times> nat" where
  "sample_loadRecord rid w =
     (if rid = ''3'' then Inr None
      else if rid = ''4'' then Inl ''ETIMEDOUT''
      else if rid = ''1'' then Inr (Some 1)
      else if rid = ''5'' then Inr (Some 5)
      else if rid = ''7'' then Inr (Some 7)
      else Inr (Some 0), w)"

definition sample_validate :: "nat \<Rightarrow> nat \<Rightarrow> (string + string report \<times> nat) \<times> nat" where
  "sample_validate r w =
     (if r = 5 then Inl ''validator crashed''
      else Inr (\<lparr>validators = (if r = 1 then ''fixed'' else ''ok''), id_prop = None\<rparr>,
                if r = 1 then 2 else r), w)"

definition sample_updateRecord :: "nat \<Rightarrow> nat \<Rightarrow> (string + string) \<times> nat" where
  "sample_updateRecord r w = (if r = 7 then Inl ''rejected'' else Inr ''updated'', w)"

definition catalog ::
  "string option \<Rightarrow> jsnum \<Rightarrow> (nat, string, string, string, unit, nat) env" where
  "catalog t c =
     \<lparr>loadRecord = sample_loadRecord,
      validate = sample_validate,
      updateRecord = sample_updateRecord,
      clone = (\<lambda>r. r),
      isEqual = (\<lambda>a b. a = b),
      saveToDb = (\<lambda>rs batchId w. w),
      dbSettled = (\<lambda>w. Some (Inr (), w)),
      isWithinTimeinterval =
        (\<lambda>t w. case t of None \<Rightarrow> True | Some _ \<Rightarrow> 1020 \<le> w mod 1440 \<or> w mod 1440 < 360),
      sleep = (\<lambda>ms w. w + ms div 60000),
      generateBatchId = (\<lambda>w. (''batch'', w)),
      argv_t = t,
      argv_c = c\<rparr>"

text \<open>No time interval, and the default chunk size.\<close>

definition sample_env :: "(nat, string, string, string, unit, nat) env" where
  "sample_env = catalog None (Fin 5)"

text \<open>The same environment with the option \<^verbatim>\<open>--timeinterval 17-06\<close>.\<close>

definition gated_env :: "(nat, string, string, string, unit, nat) env" where
  "gated_env = catalog (Some ''17-06'') (Fin 5)"


text \<open>Twelve ids, and a file that lists them.\<close>

definition sample_ids :: "string list" where
  "sample_ids =
     [''11'', ''12'', ''13'', ''14'', ''15'', ''16'', ''17'', ''18'', ''19'', ''20'', ''21'', ''22'']"

definition sample_file :: string where
  "sample_file =
     ''11\<newline>12\<newline>13\<newline>14\<newline>15\<newline>16\<newline>17\<newline>18\<newline>19\<newline>20\<newline>21\<newline>22\<newline>''"

text \<open>The initial state at a given time: nothing logged, no write in flight.\<close>

definition init :: "nat \<Rightarrow> (nat, string, string, string, unit, nat) state" where
  "init w = \<lparr>world = w, trace = [], pending = []\<rparr>"

section \<open>Reading the trace\<close>

text \<open>
  A projection of the trace keeps, for each event, what a function \<open>f\<close> makes of it.
\<close>

definition proj :: "('a \<Rightarrow> 'b list) \<Rightarrow> 'a list \<Rightarrow> 'b list" where
  "proj f tr = concat (map f tr)"

text \<open>What the handlers of a backup write log.\<close>

fun is_handler_event :: "('r, 'v, 'u, 'e, 'd) event \<Rightarrow> bool" where
  "is_handler_event (LoggerInfo (Saved _ _)) = True"
| "is_handler_event (LoggerError (StoreFailed _)) = True"
| "is_handler_event _ = False"

text \<open>The records handed to the validator, in order.\<close>

fun validated :: "('r, 'v, 'u, 'e, 'd) event \<Rightarrow> 'r list" where
  "validated (Validate r) = [r]"
| "validated _ = []"

abbreviation validator_calls :: "('r, 'v, 'u, 'e, 'd) event list \<Rightarrow> 'r list" where
  "validator_calls \<equiv> proj validated"

text \<open>
  The per-record notifications of the batch walk: the call of
  \<^verbatim>\<open>afterSuccessfulUpdate\<close> with an outcome tagged with the id, or the error line
  \<^verbatim>\<open>Updating record ${id} failed\<close>.
\<close>

datatype notification = Succeeded string | Failed string

fun notified_id :: "notification \<Rightarrow> string" where
  "notified_id (Succeeded i) = i"
| "notified_id (Failed i) = i"

text \<open>The notification that goes with the slot of an id in the results of its chunk.\<close>

definition notification_for :: "string \<Rightarrow> 'a option \<Rightarrow> notification" where
  "notification_for rid r = (case r of None \<Rightarrow> Failed rid | Some res \<Rightarrow> Succeeded rid)"

fun notification_of :: "('r, 'v, 'u, 'e, 'd) event \<Rightarrow> notification list" where
  "notification_of (AfterSuccessfulUpdate res batchId) =
     (case id_prop (results res) of None \<Rightarrow> [] | Some i \<Rightarrow> [Succeeded i])"
| "notification_of (LoggerError (RecordFailed i err)) = [Failed i]"
| "notification_of _ = []"

abbreviation notifications :: "('r, 'v, 'u, 'e, 'd) event list \<Rightarrow> notification list" where
  "notifications \<equiv> proj notification_of"

text \<open>
  The catalog fetches and the backup writes, in the order of their calls; a write is
  kept with the number of slots it was handed.
\<close>

datatype step = Load string | Save nat

fun step_of :: "('r, 'v, 'u, 'e, 'd) event \<Rightarrow> step list" where
  "step_of (LoadRecord i) = [Load i]"
| "step_of (SaveToDb rs batchId) = [Save (length rs)]"
| "step_of _ = []"

abbreviation steps :: "('r, 'v, 'u, 'e, 'd) event list \<Rightarrow> step list" where
  "steps \<equiv> proj step_of"

text \<open>The progress lines: \<open>(done, total)\<close>.\<close>

fun report_of :: "('r, 'v, 'u, 'e, 'd) event \<Rightarrow> (int \<times> int) list" where
  "report_of (LoggerInfo (Progress d t p)) = [(d, t)]"
| "report_of _ = []"

abbreviation progress_reports :: "('r, 'v, 'u, 'e, 'd) event list \<Rightarrow> (int \<times> int) list" where
  "progress_reports \<equiv> proj report_of"

text \<open>
  A trace in which no record is fetched while a backup write is in flight: at every
  \<open>LoadRecord\<close>, each earlier \<open>SaveToDb\<close> has had its handler run. The first argument
  counts the writes in flight.
\<close>

fun backup_settled_before_fetch :: "nat \<Rightarrow> ('r, 'v, 'u, 'e, 'd) event list \<Rightarrow> bool" where
  "backup_settled_before_fetch n [] = True"
| "backup_settled_before_fetch n (SaveToDb rs batchId # evs) =
     backup_settled_before_fetch (Suc n) evs"
| "backup_settled_before_fetch n (LoggerInfo (Saved d batchId) # evs) =
     backup_settled_before_fetch (n - 1) evs"
| "backup_settled_before_fetch n (LoggerError (StoreFailed e) # evs) =
     backup_settled_before_fetch (n - 1) evs"
| "backup_settled_before_fetch n (LoadRecord i # evs) =
     (n = 0 \<and> backup_settled_before_fetch n evs)"
| "backup_settled_before_fetch n (_ # evs) = backup_settled_before_fetch n evs"

section \<open>The identifier check, as specified\<close>

text \<open>
  An id is accepted when it is parseable as a number strictly between 0 and 100,000,000.
\<close>

definition parseable_in_range :: "string \<Rightarrow> bool" where
  "parseable_in_range rid =
     (case Number rid of Fin v \<Rightarrow> 0 < v \<and> v < 100000000 | _ \<Rightarrow> False)"

section \<open>The walk with the gate open\<close>

text \<open>
  What \<^verbatim>\<open>fixAll\<close> does to the state when the gate is open at every call: the chunks
  one after the other. It serves the proofs about \<open>fixAll\<close>.
\<close>

fun process_chunks ::
  "('r, 'v, 'u, 'e, 'd, 'w) env \<Rightarrow> int \<Rightarrow> string \<Rightarrow> string list list \<Rightarrow>
     ('r, 'v, 'u, 'e, 'd, 'w) state \<Rightarrow> ('r, 'v, 'u, 'e, 'd, 'w) state" where
  "process_chunks env total' batchId [] s = s"
| "process_chunks env total' batchId (head # tail) s =
     (case Promise_all_map env batchId head s of (rs, s0) \<Rightarrow>
        process_chunks env total' batchId tail
          (emit (LoggerInfo (progress total' head tail))
             (call_saveToDb env rs batchId (await env s0))))"

text \<open>The steps that a list of chunks leaves in the trace.\<close>

definition chunk_steps :: "string list list \<Rightarrow> step list" where
  "chunk_steps idChunks =
     concat (map (\<lambda>chunk. map Load (filter isValid chunk) @ [Save (length chunk)]) idChunks)"

text \<open>The progress lines of a walk over a list of chunks.\<close>

fun chunk_reports :: "int \<Rightarrow> 'a list list \<Rightarrow> (int \<times> int) list" where
  "chunk_reports total' [] = []"
| "chunk_reports total' (head # tail) =
     (total' - int (length head) * int (length tail), total') # chunk_reports total' tail"

section \<open>Evaluation\<close>

text \<open>Powers of two by repeated squaring, for evaluation.\<close>

lemma pow2_code [code]:
  "pow2 e = (if e = 0 then 1 else if e < 0 then 1 / pow2 (- e)
             else (let h = pow2 (e div 2) in if even e then h * h else 2 * h * h))"
proof -
  have pos: "pow2 e = (let h = pow2 (e div 2) in if even e then h * h else 2 * h * h)" if "0 < e"
  proof -
    have n: "nat e = nat (e div 2) + nat (e div 2) + nat (e mod 2)"
      using that by (simp add: nat_add_distrib [symmetric] pos_imp_zdiv_nonneg_iff) 
    have "(2::rat) ^ nat e = 2 ^ nat (e div 2) * 2 ^ nat (e div 2) * 2 ^ nat (e mod 2)"
      by (subst n) (simp add: power_add)
    moreover have "e mod 2 = (if even e then 0 else 1)"
      by (simp add: even_iff_mod_2_eq_zero odd_iff_mod_2_eq_one)
    ultimately show ?thesis
      using that by (simp add: pow2_def Let_def pos_imp_zdiv_nonneg_iff)
  qed
  show ?thesis
    using pos by (cases "e = 0"; cases "e < 0") (simp_all add: pow2_def)
qed

lemma isValid_samples [simp]:
  "isValid ''1''" "isValid ''2''" "isValid ''3''" "isValid ''4''" "isValid ''5''"
  "isValid ''7''" "isValid ''009877349''"
  by code_simp+

lemma not_isValid_samples [simp]:
  "\<not> isValid ''MOIKKA!''" "\<not> isValid ''123!''" "\<not> isValid ''1 23''"
  "\<not> isValid ''123019824981274981274''" "\<not> isValid ''0''" "\<not> isValid ''100000000''"
  "\<not> isValid []"
  by code_simp+
section \<open>Projections and the event loop\<close>

lemma proj_Nil [simp]: "proj f [] = []"
  by (simp add: proj_def)

lemma proj_Cons [simp]: "proj f (x # xs) = f x @ proj f xs"
  by (simp add: proj_def)

lemma proj_append [simp]: "proj f (xs @ ys) = proj f xs @ proj f ys"
  by (simp add: proj_def)

lemma trace_emit [simp]: "trace (emit ev s) = trace s @ [ev]"
  by (simp add: emit_def)

lemma world_emit [simp]: "world (emit ev s) = world s"
  by (simp add: emit_def)

lemma pending_emit [simp]: "pending (emit ev s) = pending s"
  by (simp add: emit_def)

text \<open>The event loop adds nothing to the trace but what the handlers log.\<close>

lemma run_handlers_events:
  "run_handlers env bs w = (bs', w', evs) \<Longrightarrow> \<forall>ev \<in> set evs. is_handler_event ev"
proof (induction bs arbitrary: w bs' w' evs)
  case Nil
  then show ?case by simp
next
  case (Cons b bs)
  show ?case
  proof (cases "dbSettled env w")
    case None
    with Cons.prems show ?thesis by simp
  next
    case (Some p)
    obtain r w1 where p: "p = (r, w1)" by (cases p)
    obtain bs1 w2 evs1 where rec: "run_handlers env bs w1 = (bs1, w2, evs1)"
      by (cases "run_handlers env bs w1")
    from Cons.IH [OF rec] have "\<forall>ev \<in> set evs1. is_handler_event ev" .
    with Cons.prems Some p rec show ?thesis
      by (auto split: sum.splits)
  qed
qed

lemma proj_handlers:
  assumes "\<forall>ev \<in> set evs. is_handler_event ev"
    and "\<And>ev. is_handler_event ev \<Longrightarrow> f ev = []"
  shows "proj f evs = []"
  using assms by (induction evs) simp_all

lemma proj_await:
  assumes "\<And>ev. is_handler_event ev \<Longrightarrow> f ev = []"
  shows "proj f (trace (await env s)) = proj f (trace s)"
proof -
  obtain bs w evs where r: "run_handlers env (pending s) (world s) = (bs, w, evs)"
    by (cases "run_handlers env (pending s) (world s)")
  from run_handlers_events [OF r] assms have "proj f evs = []"
    by (rule proj_handlers)
  with r show ?thesis
    by (simp add: await_def)
qed

lemma await_no_pending [simp]: "pending s = [] \<Longrightarrow> await env s = s"
  by (simp add: await_def)

lemma validated_handler: "is_handler_event ev \<Longrightarrow> validated ev = []"
  by (induction ev rule: is_handler_event.induct) simp_all

lemma notification_of_handler: "is_handler_event ev \<Longrightarrow> notification_of ev = []"
  by (induction ev rule: is_handler_event.induct) simp_all

lemma step_of_handler: "is_handler_event ev \<Longrightarrow> step_of ev = []"
  by (induction ev rule: is_handler_event.induct) simp_all

lemma report_of_handler: "is_handler_event ev \<Longrightarrow> report_of ev = []"
  by (induction ev rule: is_handler_event.induct) simp_all

lemmas validator_calls_await [simp] = proj_await [of validated, OF validated_handler]
lemmas notifications_await [simp] = proj_await [of notification_of, OF notification_of_handler]
lemmas steps_await [simp] = proj_await [of step_of, OF step_of_handler]
lemmas progress_reports_await [simp] = proj_await [of report_of, OF report_of_handler]

section \<open>The awaited calls\<close>

lemma await_loadRecord_result:
  "fst (await_loadRecord env rid s) = fst (loadRecord env rid (world s))"
  by (simp add: await_loadRecord_def split: prod.splits)


lemma validator_calls_calls [simp]:
  "validator_calls (trace (snd (await_loadRecord env rid s))) = validator_calls (trace s)"
  "validator_calls (trace (snd (await_validate env record s))) =
     validator_calls (trace s) @ [record]"
  "validator_calls (trace (snd (await_updateRecord env record s))) = validator_calls (trace s)"
  by (simp_all add: await_loadRecord_def await_validate_def await_updateRecord_def
        split: prod.splits)

lemma notifications_calls [simp]:
  "notifications (trace (snd (await_loadRecord env rid s))) = notifications (trace s)"
  "notifications (trace (snd (await_validate env record s))) = notifications (trace s)"
  "notifications (trace (snd (await_updateRecord env record s))) = notifications (trace s)"
  by (simp_all add: await_loadRecord_def await_validate_def await_updateRecord_def
        split: prod.splits)

lemma steps_calls [simp]:
  "steps (trace (snd (await_loadRecord env rid s))) = steps (trace s) @ [Load rid]"
  "steps (trace (snd (await_validate env record s))) = steps (trace s)"
  "steps (trace (snd (await_updateRecord env record s))) = steps (trace s)"
  by (simp_all add: await_loadRecord_def await_validate_def await_updateRecord_def
        split: prod.splits)

lemma progress_reports_calls [simp]:
  "progress_reports (trace (snd (await_loadRecord env rid s))) = progress_reports (trace s)"
  "progress_reports (trace (snd (await_validate env record s))) = progress_reports (trace s)"
  "progress_reports (trace (snd (await_updateRecord env record s))) = progress_reports (trace s)"
  by (simp_all add: await_loadRecord_def await_validate_def await_updateRecord_def
        split: prod.splits)

section \<open>What \<^verbatim>\<open>validateRecord\<close> and \<^verbatim>\<open>fix\<close> leave in the trace\<close>

lemma state_of_pair: "p = (a, b) \<Longrightarrow> b = snd p"
  by simp

lemma notifications_validateRecord [simp]:
  "notifications (trace (snd (validateRecord env rid s))) = notifications (trace s)"
  by (auto simp: validateRecord_def Let_def split: prod.splits sum.splits option.splits
      dest!: state_of_pair)

lemma steps_validateRecord [simp]:
  "steps (trace (snd (validateRecord env rid s))) =
     steps (trace s) @ (if isValid rid then [Load rid] else [])"
  by (auto simp: validateRecord_def Let_def split: prod.splits sum.splits option.splits
      dest!: state_of_pair)

lemma progress_reports_validateRecord [simp]:
  "progress_reports (trace (snd (validateRecord env rid s))) = progress_reports (trace s)"
  by (auto simp: validateRecord_def Let_def split: prod.splits sum.splits option.splits
      dest!: state_of_pair)

lemma notifications_fix_record [simp]:
  "notifications (trace (snd (fix_record env rid s))) = notifications (trace s)"
  by (auto simp: fix_record_def split: prod.splits sum.splits option.splits
      dest!: state_of_pair)

lemma steps_fix_record [simp]:
  "steps (trace (snd (fix_record env rid s))) =
     steps (trace s) @ (if isValid rid then [Load rid] else [])"
  by (auto simp: fix_record_def split: prod.splits sum.splits option.splits
      dest!: state_of_pair)

lemma progress_reports_fix_record [simp]:
  "progress_reports (trace (snd (fix_record env rid s))) = progress_reports (trace s)"
  by (auto simp: fix_record_def split: prod.splits sum.splits option.splits
      dest!: state_of_pair)
section \<open>Revalidation\<close>

text \<open>
  C1. Take a valid id whose record the catalog returns and whose first validation
  returns. If the record after that validation equals the clone taken before it,
  \<^verbatim>\<open>validateRecord\<close> returns with \<^verbatim>\<open>revalidationResults\<close> the empty string, and the
  validator has been called once. If it differs, the validator is called a second time,
  on the mutated record, and \<^verbatim>\<open>validateRecord\<close> returns what that call returns: its report
  as \<^verbatim>\<open>revalidationResults\<close> (or its failure).
\<close>

theorem validateRecord_revalidation:
  assumes "isValid rid"
    and "await_loadRecord env rid s = (Inr (Some record), s1)"
    and "await_validate env record s1 = (Inr (results1, record1), s2)"
  shows "(isEqual env (clone env record) record1 \<longrightarrow>
            validateRecord env rid s =
              (Inr (Some \<lparr>originalRecord = clone env record, results = results1,
                          revalidationResults = EmptyString, validatedRecord = record1,
                          updateResponse = None\<rparr>), s2) \<and>
            validator_calls (trace s2) = validator_calls (trace s) @ [record]) \<and>
         (\<not> isEqual env (clone env record) record1 \<longrightarrow>
            validateRecord env rid s =
              (case await_validate env record1 s2 of
                 (Inl e, s3) \<Rightarrow> (Inl (ValidatorFailure e), s3)
               | (Inr (results2, record2), s3) \<Rightarrow>
                   (Inr (Some \<lparr>originalRecord = clone env record, results = results1,
                               revalidationResults = Report results2, validatedRecord = record2,
                               updateResponse = None\<rparr>), s3)) \<and>
            validator_calls (trace (snd (validateRecord env rid s))) =
              validator_calls (trace s) @ [record, record1])"
proof -
  have c1: "validator_calls (trace s1) = validator_calls (trace s)"
    using validator_calls_calls(1) [of env rid s] assms(2) by simp
  have c2: "validator_calls (trace s2) = validator_calls (trace s) @ [record]"
    using validator_calls_calls(2) [of env "record" s1] assms(3) c1 by simp
  obtain r3 s3 where v2: "await_validate env record1 s2 = (r3, s3)"
    by (cases "await_validate env record1 s2")
  have c3: "validator_calls (trace s3) = validator_calls (trace s) @ [record, record1]"
    using validator_calls_calls(2) [of env record1 s2] v2 c2 by simp
  show ?thesis
    using assms c2 c3 v2
    by (auto simp: validateRecord_def split: sum.splits)
qed

theorem validateRecord_revalidation_witness:
  "validateRecord sample_env ''2'' (init 0) =
     (Inr (Some \<lparr>originalRecord = 0, results = \<lparr>validators = ''ok'', id_prop = None\<rparr>,
                 revalidationResults = EmptyString, validatedRecord = 0,
                 updateResponse = None\<rparr>),
      \<lparr>world = 0, trace = [LoadRecord ''2'', Validate 0], pending = []\<rparr>) \<and>
   validateRecord sample_env ''1'' (init 0) =
     (Inr (Some \<lparr>originalRecord = 1, results = \<lparr>validators = ''fixed'', id_prop = None\<rparr>,
                 revalidationResults = Report \<lparr>validators = ''ok'', id_prop = None\<rparr>,
                 validatedRecord = 2, updateResponse = None\<rparr>),
      \<lparr>world = 0, trace = [LoadRecord ''1'', Validate 1, Validate 2], pending = []\<rparr>)"
  using validateRecord_revalidation [of "''2''" sample_env "init 0" 0
          "\<lparr>world = 0, trace = [LoadRecord ''2''], pending = []\<rparr>"
          "\<lparr>validators = ''ok'', id_prop = None\<rparr>" 0
          "\<lparr>world = 0, trace = [LoadRecord ''2'', Validate 0], pending = []\<rparr>"]
        validateRecord_revalidation [of "''1''" sample_env "init 0" 1
          "\<lparr>world = 0, trace = [LoadRecord ''1''], pending = []\<rparr>"
          "\<lparr>validators = ''fixed'', id_prop = None\<rparr>" 2
          "\<lparr>world = 0, trace = [LoadRecord ''1'', Validate 1], pending = []\<rparr>"]
  by (simp add: await_loadRecord_def await_validate_def sample_env_def catalog_def sample_loadRecord_def
        sample_validate_def init_def emit_def)

section \<open>The identifier check\<close>

lemma isValid_parseable_in_range: "isValid rid = parseable_in_range rid"
  by (cases "Number rid") (simp_all add: isValid_def parseable_in_range_def js_gt_def)

text \<open>
  C2. An id that is parseable as a number strictly between 0 and 100,000,000 never makes
  \<^verbatim>\<open>validateRecord\<close> fail with InvalidId; for every other string \<^verbatim>\<open>validateRecord\<close>
  fails with InvalidId and leaves the state as it was: nothing has been asked of the
  catalog.
\<close>

theorem validateRecord_InvalidId:
  "(parseable_in_range rid \<longrightarrow> (\<forall>i. fst (validateRecord env rid s) \<noteq> Inl (InvalidId i))) \<and>
   (\<not> parseable_in_range rid \<longrightarrow> validateRecord env rid s = (Inl (InvalidId rid), s))"
  by (auto simp: isValid_parseable_in_range [symmetric] validateRecord_def Let_def
      split: prod.splits sum.splits option.splits)

theorem validateRecord_InvalidId_witness:
  "parseable_in_range ''009877349'' \<and>
   fst (validateRecord sample_env ''009877349'' (init 0)) \<noteq> Inl (InvalidId ''009877349'') \<and>
   \<not> parseable_in_range ''MOIKKA!'' \<and>
   validateRecord sample_env ''MOIKKA!'' (init 0) = (Inl (InvalidId ''MOIKKA!''), init 0)"
  using validateRecord_InvalidId [of "''009877349''" sample_env "init 0"]
        validateRecord_InvalidId [of "''MOIKKA!''" sample_env "init 0"]
  by (simp add: isValid_parseable_in_range [symmetric])

section \<open>\<^verbatim>\<open>fix\<close>\<close>

lemma fix_record_cases:
  "fix_record env rid s =
     (case validateRecord env rid s of
        (Inl e, s0) \<Rightarrow> (Inl e, await env s0)
      | (Inr None, s0) \<Rightarrow> (Inl TypeError, await env s0)
      | (Inr (Some validationRes), s0) \<Rightarrow>
          (case await_updateRecord env (validatedRecord validationRes) (await env s0) of
             (Inl e, s2) \<Rightarrow> (Inl (UpdateFailed e), s2)
           | (Inr response, s2) \<Rightarrow>
               (Inr (validationRes\<lparr>updateResponse := Some response\<rparr>), s2)))"
  by (simp add: fix_record_def split: prod.splits sum.splits option.splits)




section \<open>A record that the catalog does not have\<close>

text \<open>
  C10. For a valid id for which the catalog returns no record, \<^verbatim>\<open>validateRecord\<close>
  returns \<^verbatim>\<open>null\<close> and \<^verbatim>\<open>fix\<close> rejects, with the TypeError of reading
  \<^verbatim>\<open>validatedRecord\<close> from \<^verbatim>\<open>null\<close>: it returns neither \<^verbatim>\<open>null\<close> nor an outcome.
\<close>

theorem fix_record_missing_record:
  assumes "isValid rid"
    and "fst (loadRecord env rid (world s)) = Inr None"
  shows "fst (validateRecord env rid s) = Inr None \<and>
         fst (fix_record env rid s) = Inl TypeError"
proof -
  from assms(2) have "fst (await_loadRecord env rid s) = Inr None"
    by (simp add: await_loadRecord_result)
  with assms(1) have "fst (validateRecord env rid s) = Inr None"
    by (auto simp: validateRecord_def split: prod.splits)
  then show ?thesis
    by (auto simp: fix_record_cases split: prod.splits)
qed

theorem fix_record_missing_record_witness:
  "isValid ''3'' \<and> fst (loadRecord sample_env ''3'' (world (init 0))) = Inr None \<and>
   fst (validateRecord sample_env ''3'' (init 0)) = Inr None \<and>
   fst (fix_record sample_env ''3'' (init 0)) = Inl TypeError"
proof -
  have h: "fst (loadRecord sample_env ''3'' (world (init 0))) = Inr None"
    by (simp add: sample_env_def catalog_def sample_loadRecord_def)
  from fix_record_missing_record [of "''3''" sample_env "init 0", OF isValid_samples(3) h] h
  show ?thesis by simp
qed
section \<open>What a chunk leaves in the trace\<close>

lemma fix_callback_cases:
  "fix_callback env batchId rid s =
     (case fix_record env rid s of
        (Inr res, s0) \<Rightarrow>
          (Some (res\<lparr>results := (results res)\<lparr>id_prop := Some rid\<rparr>\<rparr>),
           emit (AfterSuccessfulUpdate (res\<lparr>results := (results res)\<lparr>id_prop := Some rid\<rparr>\<rparr>) batchId)
             (await env s0))
      | (Inl err, s0) \<Rightarrow> (None, emit (LoggerError (RecordFailed rid err)) (await env s0)))"
  by (simp add: fix_callback_def Let_def split: prod.splits sum.splits)

lemma notifications_fix_callback [simp]:
  "notifications (trace (snd (fix_callback env batchId rid s))) =
     notifications (trace s) @ [notification_for rid (fst (fix_callback env batchId rid s))]"
proof -
  obtain r s0 where f: "fix_record env rid s = (r, s0)"
    by (cases "fix_record env rid s")
  with notifications_fix_record [of env rid s]
  have "notifications (trace s0) = notifications (trace s)"
    by simp
  with f show ?thesis
    by (cases r) (simp_all add: fix_callback_cases notification_for_def)
qed

lemma steps_fix_callback [simp]:
  "steps (trace (snd (fix_callback env batchId rid s))) =
     steps (trace s) @ (if isValid rid then [Load rid] else [])"
proof -
  obtain r s0 where f: "fix_record env rid s = (r, s0)"
    by (cases "fix_record env rid s")
  with steps_fix_record [of env rid s]
  have "steps (trace s0) = steps (trace s) @ (if isValid rid then [Load rid] else [])"
    by simp
  with f show ?thesis
    by (cases r) (simp_all add: fix_callback_cases)
qed

lemma progress_reports_fix_callback [simp]:
  "progress_reports (trace (snd (fix_callback env batchId rid s))) = progress_reports (trace s)"
proof -
  obtain r s0 where f: "fix_record env rid s = (r, s0)"
    by (cases "fix_record env rid s")
  with progress_reports_fix_record [of env rid s]
  have "progress_reports (trace s0) = progress_reports (trace s)"
    by simp
  with f show ?thesis
    by (cases r) (simp_all add: fix_callback_cases)
qed

lemma Promise_all_map_Cons:
  "Promise_all_map env batchId (rid # rest) s =
     (fst (fix_callback env batchId rid s) #
        fst (Promise_all_map env batchId rest (snd (fix_callback env batchId rid s))),
      snd (Promise_all_map env batchId rest (snd (fix_callback env batchId rid s))))"
  by (simp add: Let_def split: prod.splits)

lemma length_Promise_all_map [simp]:
  "length (fst (Promise_all_map env batchId head s)) = length head"
  by (induction head arbitrary: s) (simp_all add: Promise_all_map_Cons del: Promise_all_map.simps(2))

lemma notified_id_notification_for [simp]: "notified_id (notification_for rid r) = rid"
  by (cases r) (simp_all add: notification_for_def)

lemma notifications_Promise_all_map [simp]:
  "notifications (trace (snd (Promise_all_map env batchId head s))) =
     notifications (trace s) @
       map2 notification_for head (fst (Promise_all_map env batchId head s))"
  by (induction head arbitrary: s) (simp_all add: Promise_all_map_Cons del: Promise_all_map.simps(2))


lemma steps_Promise_all_map [simp]:
  "steps (trace (snd (Promise_all_map env batchId head s))) =
     steps (trace s) @ map Load (filter isValid head)"
  by (induction head arbitrary: s) (simp_all add: Promise_all_map_Cons del: Promise_all_map.simps(2))

lemma progress_reports_Promise_all_map [simp]:
  "progress_reports (trace (snd (Promise_all_map env batchId head s))) =
     progress_reports (trace s)"
  by (induction head arbitrary: s) (simp_all add: Promise_all_map_Cons del: Promise_all_map.simps(2))

lemma trace_call_saveToDb [simp]:
  "trace (call_saveToDb env rs batchId s) = trace s @ [SaveToDb rs batchId]"
  by (simp add: call_saveToDb_def)

lemma pending_call_saveToDb [simp]:
  "pending (call_saveToDb env rs batchId s) = pending s @ [batchId]"
  by (simp add: call_saveToDb_def)

lemma report_of_progress [simp]:
  "report_of (LoggerInfo (progress total' head tail)) =
     [(total' - int (length head) * int (length tail), total')]"
  by (simp add: progress_def Let_def)

lemma notification_of_progress [simp]:
  "notification_of (LoggerInfo (progress total' head tail)) = []"
  by (simp add: progress_def Let_def)

lemma step_of_progress [simp]: "step_of (LoggerInfo (progress total' head tail)) = []"
  by (simp add: progress_def Let_def)

section \<open>The walk with the gate open\<close>

lemma process_chunks_Cons:
  "process_chunks env total' batchId (head # tail) s =
     process_chunks env total' batchId tail
       (emit (LoggerInfo (progress total' head tail))
          (call_saveToDb env (fst (Promise_all_map env batchId head s)) batchId
             (await env (snd (Promise_all_map env batchId head s)))))"
  by (simp split: prod.splits)

lemma fixAll_open_gate:
  assumes "\<forall>w. isWithinTimeinterval env (argv_t env) w"
  shows "fixAll env idChunks total' batchId s =
           Some (emit (LoggerInfo Done) (process_chunks env total' batchId idChunks s))"
proof (induction idChunks arbitrary: s)
  case Nil
  show ?case
    using assms by (subst fixAll.simps) simp
next
  case (Cons head tail)
  show ?case
    using assms Cons.IH
    by (subst fixAll.simps) (simp add: process_chunks_Cons split: prod.splits
        del: process_chunks.simps(2))
qed


lemma steps_process_chunks:
  "steps (trace (process_chunks env total' batchId idChunks s)) =
     steps (trace s) @ chunk_steps idChunks"
  by (induction idChunks arbitrary: s)
    (simp_all add: process_chunks_Cons chunk_steps_def del: process_chunks.simps(2))

lemma progress_reports_process_chunks:
  "progress_reports (trace (process_chunks env total' batchId idChunks s)) =
     progress_reports (trace s) @ chunk_reports total' idChunks"
  by (induction idChunks arbitrary: s)
    (simp_all add: process_chunks_Cons del: process_chunks.simps(2))
section \<open>Runs on the sample catalog\<close>

lemma sample_run_handlers:
  "run_handlers (catalog t c) p w = ([], w, map (\<lambda>b. LoggerInfo (Saved () b)) p)"
  by (induction p arbitrary: w) (simp_all add: catalog_def)

lemma sample_await:
  "await (catalog t c) s =
     s\<lparr>trace := trace s @ map (\<lambda>b. LoggerInfo (Saved () b)) (pending s), pending := []\<rparr>"
  by (simp add: await_def sample_run_handlers)

lemmas sample_defs =
  fix_callback_cases fix_record_cases validateRecord_def await_loadRecord_def
  await_validate_def await_updateRecord_def sample_loadRecord_def sample_validate_def
  sample_updateRecord_def emit_def sample_await

lemma catalog_simps [simp]:
  "loadRecord (catalog t c) = sample_loadRecord"
  "validate (catalog t c) = sample_validate"
  "updateRecord (catalog t c) = sample_updateRecord"
  "clone (catalog t c) r = r"
  "isEqual (catalog t c) a b = (a = b)"
  "saveToDb (catalog t c) rs batchId w = w"
  "argv_t (catalog t c) = t"
  "argv_c (catalog t c) = c"
  "generateBatchId (catalog t c) w = (''batch'', w)"
  by (simp_all add: catalog_def)

lemma gate_catalog [simp]: "isWithinTimeinterval (catalog t c) None w"
  by (simp add: catalog_def)

text \<open>
  The callback on the ids 1 (corrected), 2 (clean), 3 (no record) and 4 (the fetch fails);
  so ids 1 and 2 are fixed whatever happens to 3 and 4 beside them.
\<close>

lemma sample_fix_callback_1:
  "fix_callback (catalog t c) batchId ''1'' \<lparr>world = w, trace = tr, pending = p\<rparr> =
     (Some \<lparr>originalRecord = 1, results = \<lparr>validators = ''fixed'', id_prop = Some ''1''\<rparr>,
            revalidationResults = Report \<lparr>validators = ''ok'', id_prop = None\<rparr>,
            validatedRecord = 2, updateResponse = Some ''updated''\<rparr>,
      \<lparr>world = w,
       trace = tr @ LoadRecord ''1'' # map (\<lambda>b. LoggerInfo (Saved () b)) p @
         [Validate 1, Validate 2, UpdateRecord 2,
          AfterSuccessfulUpdate
            \<lparr>originalRecord = 1, results = \<lparr>validators = ''fixed'', id_prop = Some ''1''\<rparr>,
             revalidationResults = Report \<lparr>validators = ''ok'', id_prop = None\<rparr>,
             validatedRecord = 2, updateResponse = Some ''updated''\<rparr> batchId],
       pending = []\<rparr>)"
  by (simp add: sample_defs)

lemma sample_fix_callback_2:
  "fix_callback (catalog t c) batchId ''2'' \<lparr>world = w, trace = tr, pending = p\<rparr> =
     (Some \<lparr>originalRecord = 0, results = \<lparr>validators = ''ok'', id_prop = Some ''2''\<rparr>,
            revalidationResults = EmptyString,
            validatedRecord = 0, updateResponse = Some ''updated''\<rparr>,
      \<lparr>world = w,
       trace = tr @ LoadRecord ''2'' # map (\<lambda>b. LoggerInfo (Saved () b)) p @
         [Validate 0, UpdateRecord 0,
          AfterSuccessfulUpdate
            \<lparr>originalRecord = 0, results = \<lparr>validators = ''ok'', id_prop = Some ''2''\<rparr>,
             revalidationResults = EmptyString,
             validatedRecord = 0, updateResponse = Some ''updated''\<rparr> batchId],
       pending = []\<rparr>)"
  by (simp add: sample_defs)

lemma sample_fix_callback_3:
  "fix_callback (catalog t c) batchId ''3'' \<lparr>world = w, trace = tr, pending = p\<rparr> =
     (None,
      \<lparr>world = w,
       trace = tr @ LoadRecord ''3'' # map (\<lambda>b. LoggerInfo (Saved () b)) p @
         [LoggerError (RecordFailed ''3'' TypeError)],
       pending = []\<rparr>)"
  by (simp add: sample_defs)

lemma sample_fix_callback_4:
  "fix_callback (catalog t c) batchId ''4'' \<lparr>world = w, trace = tr, pending = p\<rparr> =
     (None,
      \<lparr>world = w,
       trace = tr @ LoadRecord ''4'' # map (\<lambda>b. LoggerInfo (Saved () b)) p @
         [LoggerError (RecordFailed ''4'' (FetchFailed ''ETIMEDOUT''))],
       pending = []\<rparr>)"
  by (simp add: sample_defs)

lemmas sample_run_simps =
  fixAll_open_gate sample_fix_callback_1 sample_fix_callback_2 sample_fix_callback_3
  sample_fix_callback_4 call_saveToDb_def emit_def sample_await init_def

section \<open>Failure isolation\<close>


text \<open>A run on the sample catalog.\<close>

lemma sample_run_notifications:
  "map_option (notifications \<circ> trace)
     (fixAll sample_env [[''1'', ''4''], [''3'', ''2'']] 4 ''batch'' (init 0)) =
   Some [Succeeded ''1'', Failed ''4'', Failed ''3'', Succeeded ''2'']"
  by (simp add: sample_env_def sample_run_simps)

section \<open>The time gate\<close>


lemma gated_env_simps [simp]:
  "argv_t gated_env = Some ''17-06''"
  "isWithinTimeinterval gated_env t w =
     (case t of None \<Rightarrow> True | Some _ \<Rightarrow> 1020 \<le> w mod 1440 \<or> w mod 1440 < 360)"
  "sleep gated_env ms w = w + ms div 60000"
  "dbSettled gated_env = (\<lambda>w. Some (Inr (), w))"
  by (simp_all add: gated_env_def catalog_def)

section \<open>Order of the chunks and of the backup writes\<close>

lemma percent_samples:
  "Math_round (js_mul (js_div (Fin 1) (Fin 2)) (Fin 100)) = Fin 50"
  "Math_round (js_mul (js_div (Fin 2) (Fin 2)) (Fin 100)) = Fin 100"
  "Math_round (js_mul (js_div (Fin 1) (Fin 1)) (Fin 100)) = Fin 100"
  "Math_round (js_mul (js_div (Fin 2) (Fin 12)) (Fin 100)) = Fin 17"
  "Math_round (js_mul (js_div (Fin 7) (Fin 12)) (Fin 100)) = Fin 58"
  "Math_round (js_mul (js_div (Fin 12) (Fin 12)) (Fin 100)) = Fin 100"
  by code_simp+

text \<open>
  The trace of a walk over the chunks \<^verbatim>\<open>[['1'], ['2']]\<close> on the sample catalog, where a
  backup write settles as soon as the event loop runs: the handler of the first write
  (\<^verbatim>\<open>Saved\<close>) runs after the fetch of the second chunk has been called, and the second
  write is still in flight when the walk is done.
\<close>

lemma sample_walk_trace:
  "fixAll sample_env [[''1''], [''2'']] 2 ''batch'' (init 0) =
     Some \<lparr>world = 0,
           trace =
             [LoadRecord ''1'', Validate 1, Validate 2, UpdateRecord 2,
              AfterSuccessfulUpdate
                \<lparr>originalRecord = 1,
                 results = \<lparr>validators = ''fixed'', id_prop = Some ''1''\<rparr>,
                 revalidationResults = Report \<lparr>validators = ''ok'', id_prop = None\<rparr>,
                 validatedRecord = 2, updateResponse = Some ''updated''\<rparr> ''batch'',
              SaveToDb
                [Some \<lparr>originalRecord = 1,
                       results = \<lparr>validators = ''fixed'', id_prop = Some ''1''\<rparr>,
                       revalidationResults = Report \<lparr>validators = ''ok'', id_prop = None\<rparr>,
                       validatedRecord = 2, updateResponse = Some ''updated''\<rparr>] ''batch'',
              LoggerInfo (Progress 1 2 (Fin 50)),
              LoadRecord ''2'',
              LoggerInfo (Saved () ''batch''),
              Validate 0, UpdateRecord 0,
              AfterSuccessfulUpdate
                \<lparr>originalRecord = 0, results = \<lparr>validators = ''ok'', id_prop = Some ''2''\<rparr>,
                 revalidationResults = EmptyString,
                 validatedRecord = 0, updateResponse = Some ''updated''\<rparr> ''batch'',
              SaveToDb
                [Some \<lparr>originalRecord = 0,
                       results = \<lparr>validators = ''ok'', id_prop = Some ''2''\<rparr>,
                       revalidationResults = EmptyString,
                       validatedRecord = 0, updateResponse = Some ''updated''\<rparr>] ''batch'',
              LoggerInfo (Progress 2 2 (Fin 100)),
              LoggerInfo Done],
           pending = [''batch'']\<rparr>"
  by (simp add: sample_env_def sample_run_simps progress_def percent_samples
      del: js_div.simps js_mul.simps Math_round.simps)

text \<open>
  C6, as stated, fails: in the walk above the record of the second chunk is fetched while
  the backup write of the first chunk is in flight.
\<close>

theorem fixAll_awaits_backup_counterexample:
  "map_option (backup_settled_before_fetch 0 \<circ> trace)
     (fixAll sample_env [[''1''], [''2'']] 2 ''batch'' (init 0)) = Some False"
  by (simp add: sample_walk_trace)

text \<open>
  C6, amended. \<^verbatim>\<open>fixAll\<close> starts on the next chunk only after every fix of the current
  chunk has resolved and \<^verbatim>\<open>saveToDb\<close> has been called with its outcomes; it does not wait
  for that write: the promise is pending when \<^verbatim>\<open>fixAll\<close> calls itself with the tail. Over
  a whole walk (gate open) the fetches and the calls of \<^verbatim>\<open>saveToDb\<close> come chunk by chunk,
  the fetches of a chunk before its backup call, and that before the fetches of the next.
\<close>

theorem fixAll_backup_called_before_next_chunk:
  "(isWithinTimeinterval env (argv_t env) (world s) \<longrightarrow>
      (\<exists>s3. fixAll env (head # tail) total' batchId s = fixAll env tail total' batchId s3 \<and>
         steps (trace s3) =
           steps (trace s) @ map Load (filter isValid head) @ [Save (length head)] \<and>
         pending s3 \<noteq> [] \<and> last (pending s3) = batchId)) \<and>
   ((\<forall>w. isWithinTimeinterval env (argv_t env) w) \<longrightarrow>
      (\<exists>s'. fixAll env idChunks total' batchId s = Some s' \<and>
         steps (trace s') = steps (trace s) @ chunk_steps idChunks))"
proof (intro conjI impI)
  assume gate: "isWithinTimeinterval env (argv_t env) (world s)"
  let ?p = "Promise_all_map env batchId head s"
  let ?s3 = "emit (LoggerInfo (progress total' head tail))
               (call_saveToDb env (fst ?p) batchId (await env (snd ?p)))"
  have "fixAll env (head # tail) total' batchId s = fixAll env tail total' batchId ?s3"
    using gate by (subst fixAll.simps) (simp split: prod.splits)
  moreover have "steps (trace ?s3) =
      steps (trace s) @ map Load (filter isValid head) @ [Save (length head)]"
    by simp
  moreover have "pending ?s3 \<noteq> [] \<and> last (pending ?s3) = batchId"
    by simp
  ultimately show "\<exists>s3. fixAll env (head # tail) total' batchId s =
        fixAll env tail total' batchId s3 \<and>
      steps (trace s3) = steps (trace s) @ map Load (filter isValid head) @ [Save (length head)] \<and>
      pending s3 \<noteq> [] \<and> last (pending s3) = batchId"
    by (intro exI [of _ ?s3] conjI) simp_all
next
  assume gate: "\<forall>w. isWithinTimeinterval env (argv_t env) w"
  let ?s' = "emit (LoggerInfo Done) (process_chunks env total' batchId idChunks s)"
  have "fixAll env idChunks total' batchId s = Some ?s'"
    using gate by (rule fixAll_open_gate)
  moreover have "steps (trace ?s') = steps (trace s) @ chunk_steps idChunks"
    by (simp add: steps_process_chunks)
  ultimately show "\<exists>s'. fixAll env idChunks total' batchId s = Some s' \<and>
      steps (trace s') = steps (trace s) @ chunk_steps idChunks"
    by (intro exI [of _ ?s'] conjI)
qed

theorem fixAll_backup_called_before_next_chunk_witness:
  "(\<forall>w. isWithinTimeinterval sample_env (argv_t sample_env) w) \<and>
   (\<exists>s'. fixAll sample_env [[''1'', ''2''], [''3''], [''4'']] 4 ''batch'' (init 0) = Some s' \<and>
      steps (trace s') =
        [Load ''1'', Load ''2'', Save 2, Load ''3'', Save 1, Load ''4'', Save 1])"
proof -
  have g: "\<forall>w. isWithinTimeinterval sample_env (argv_t sample_env) w"
    by (simp add: sample_env_def)
  from fixAll_backup_called_before_next_chunk
         [where env = sample_env and s = "init 0" and batchId = "''batch''" and total' = 4
            and idChunks = "[[''1'', ''2''], [''3''], [''4'']]",
          THEN conjunct2, THEN mp, OF g]
  show ?thesis
    using g by (simp add: chunk_steps_def init_def numeral_2_eq_2)
qed
section \<open>Chunking\<close>

lemma toInteger_5 [simp]: "toInteger (Fin 5) = 5"
  by simp

lemma chunk_loop_concat:
  "0 < n \<Longrightarrow> concat (chunk_loop xs n i) = drop i xs"
proof (induction xs n i rule: chunk_loop.induct)
  case (1 array size' index)
  show ?case
  proof (cases "index < length array")
    case True
    with 1 have "concat (chunk_loop array size' (index + size')) = drop (index + size') array"
      by simp
    also have "\<dots> = drop size' (drop index array)"
      by (simp add: add.commute)
    finally have ih: "concat (chunk_loop array size' (index + size')) =
        drop size' (drop index array)" .
    have "chunk_loop array size' index =
        take size' (drop index array) # chunk_loop array size' (index + size')"
      using True 1(2) by (subst chunk_loop.simps) simp
    then show ?thesis
      by (simp only: concat.simps ih append_take_drop_id)
  next
    case False
    then show ?thesis
      by (subst chunk_loop.simps) simp
  qed
qed


lemma lodash_chunk_5:
  "ids \<noteq> [] \<Longrightarrow> lodash_chunk ids (Fin 5) = chunk_loop ids 5 0"
  by (simp add: lodash_chunk_def)

lemma lodash_chunk_twelve:
  assumes "length ids = 12"
  shows "lodash_chunk ids (Fin 5) = [take 5 ids, take 5 (drop 5 ids), drop 10 ids]"
proof -
  from assms have ne: "ids \<noteq> []"
    by auto
  have l3: "chunk_loop ids 5 15 = []"
    using assms by (subst chunk_loop.simps) simp
  have l2: "chunk_loop ids 5 10 = [drop 10 ids]"
    using assms l3 by (subst chunk_loop.simps) simp
  have l1: "chunk_loop ids 5 5 = [take 5 (drop 5 ids), drop 10 ids]"
    using assms l2 by (subst chunk_loop.simps) simp
  have "chunk_loop ids 5 0 = [take 5 ids, take 5 (drop 5 ids), drop 10 ids]"
    using assms l1 by (subst chunk_loop.simps) simp
  with ne show ?thesis
    by (simp add: lodash_chunk_5)
qed

lemma lodash_chunk_negative:
  "js_lt c (Fin 0) \<Longrightarrow> lodash_chunk ids c = []"
proof (cases c)
  case (Fin x)
  assume "js_lt c (Fin 0)"
  with Fin have "x < 0"
    by simp
  then have "\<lceil>x\<rceil> \<le> 0"
    by (simp add: ceiling_le_zero)
  with Fin \<open>x < 0\<close> show ?thesis
    by (simp add: lodash_chunk_def)
qed (simp_all add: lodash_chunk_def MAX_INTEGER_def)

lemma read_ids_valid: "rid \<in> set (read_ids contents) \<Longrightarrow> isValid rid"
  by (simp add: read_ids_def)

lemma filter_isValid_take: "filter isValid (take n (read_ids contents)) = take n (read_ids contents)"
  by (rule filter_True) (auto dest: in_set_takeD read_ids_valid)

lemma filter_isValid_drop: "filter isValid (drop n (read_ids contents)) = drop n (read_ids contents)"
  by (rule filter_True) (auto dest: in_set_dropD read_ids_valid)

lemma filter_isValid_take_drop:
  "filter isValid (take n (drop m (read_ids contents))) = take n (drop m (read_ids contents))"
  by (rule filter_True) (auto dest: in_set_takeD in_set_dropD read_ids_valid)

section \<open>The progress report\<close>

lemma sample_ids_chunks:
  "lodash_chunk sample_ids (Fin 5) =
     [[''11'', ''12'', ''13'', ''14'', ''15''], [''16'', ''17'', ''18'', ''19'', ''20''],
      [''21'', ''22'']]"
  by (simp add: lodash_chunk_twelve sample_ids_def)

text \<open>
  C7 fails on the code. With 12 ids in chunks of 5, \<^verbatim>\<open>total - head.length * tail.length\<close>
  is \<open>12 - 5 * 2 = 2\<close> after the first chunk and \<open>12 - 5 * 1 = 7\<close> after the second, where 5
  and 10 ids have been processed; only the last report, \<open>12 - 2 * 0 = 12\<close>, is right. The walk
  on the sample catalog logs these three reports, the first as \<^verbatim>\<open>2/12 (17 %)\<close>.
\<close>

theorem fixAll_progress_twelve_ids:
  "map_option (progress_reports \<circ> trace)
     (fixAll sample_env (lodash_chunk sample_ids (Fin 5)) 12 ''batch'' (init 0)) =
     Some [(2, 12), (7, 12), (12, 12)] \<and>
   progress 12 [''11'', ''12'', ''13'', ''14'', ''15'']
     [[''16'', ''17'', ''18'', ''19'', ''20''], [''21'', ''22'']] = Progress 2 12 (Fin 17)"
  by (simp add: sample_ids_chunks sample_env_def fixAll_open_gate
      progress_reports_process_chunks init_def progress_def percent_samples
      del: js_div.simps js_mul.simps Math_round.simps process_chunks.simps)
section \<open>Twelve ids in chunks of five\<close>

lemma read_ids_samples:
  "read_ids sample_file = sample_ids"
  "read_ids ''2'' = [''2'']"
  by code_simp+

lemma steps_fixmultiple:
  assumes "read_ids contents \<noteq> []"
    and "\<forall>w. isWithinTimeinterval env (argv_t env) w"
  shows "\<exists>s'. fixmultiple env contents s = Inr (Some s') \<and>
           steps (trace s') =
             steps (trace s) @
               chunk_steps (lodash_chunk (read_ids contents)
                  (if truthy (argv_c env) then argv_c env else Fin 5))"
proof -
  let ?ids = "read_ids contents"
  let ?chunk = "if truthy (argv_c env) then argv_c env else Fin 5"
  let ?s1 = "emit (LoggerInfo (ReadIds (length ?ids) ?chunk)) s"
  obtain batchId w where b: "generateBatchId env (world ?s1) = (batchId, w)"
    by (cases "generateBatchId env (world ?s1)")
  let ?s' = "emit (LoggerInfo Done)
               (process_chunks env (int (length ?ids)) batchId (lodash_chunk ?ids ?chunk)
                  (?s1\<lparr>world := w\<rparr>))"
  from assms(1) have "\<not> length ?ids < 1"
    by (cases ?ids) simp_all
  with b have "fixmultiple env contents s =
      Inr (fixAll env (lodash_chunk ?ids ?chunk) (int (length ?ids)) batchId (?s1\<lparr>world := w\<rparr>))"
    by (simp add: fixmultiple_def Let_def)
  also have "\<dots> = Inr (Some ?s')"
    by (simp only: fixAll_open_gate [OF assms(2)])
  finally have "fixmultiple env contents s = Inr (Some ?s')" .
  moreover have "steps (trace ?s') = steps (trace s) @ chunk_steps (lodash_chunk ?ids ?chunk)"
    by (simp add: steps_process_chunks)
  ultimately show ?thesis
    by (intro exI [of _ ?s'] conjI)
qed

text \<open>
  C8. With 12 valid ids read from the file and chunk size 5, \<^verbatim>\<open>_.chunk\<close> gives the
  chunks of the ids 1 to 5, 6 to 10 and 11 to 12, in the order of the list; the walk (gate
  open) fetches the records of the first chunk and calls the backup with its 5 slots, then
  the second chunk likewise, then the last with 2 slots, and ends.
\<close>

theorem fixmultiple_twelve_ids:
  assumes "length (read_ids contents) = 12"
    and "argv_c env = Fin 5"
    and "\<forall>w. isWithinTimeinterval env (argv_t env) w"
  shows "map length (lodash_chunk (read_ids contents) (Fin 5)) = [5, 5, 2] \<and>
         concat (lodash_chunk (read_ids contents) (Fin 5)) = read_ids contents \<and>
         (\<exists>s'. fixmultiple env contents s = Inr (Some s') \<and>
            steps (trace s') =
              steps (trace s) @
                map Load (take 5 (read_ids contents)) @ [Save 5] @
                map Load (take 5 (drop 5 (read_ids contents))) @ [Save 5] @
                map Load (drop 10 (read_ids contents)) @ [Save 2])"
proof -
  let ?ids = "read_ids contents"
  have chunks: "lodash_chunk ?ids (Fin 5) = [take 5 ?ids, take 5 (drop 5 ?ids), drop 10 ?ids]"
    using assms(1) by (rule lodash_chunk_twelve)
  from assms(1) have ne: "?ids \<noteq> []"
    by auto
  have a: "map length (lodash_chunk ?ids (Fin 5)) = [5, 5, 2]"
    using assms(1) by (simp add: chunks)
  have b: "concat (lodash_chunk ?ids (Fin 5)) = ?ids"
    using ne by (simp add: lodash_chunk_5 chunk_loop_concat)
  have c: "chunk_steps (lodash_chunk ?ids (Fin 5)) =
      map Load (take 5 ?ids) @ [Save 5] @ map Load (take 5 (drop 5 ?ids)) @ [Save 5] @
      map Load (drop 10 ?ids) @ [Save 2]"
    using assms(1)
    by (simp add: chunks chunk_steps_def filter_isValid_take filter_isValid_drop
        filter_isValid_take_drop)
  from steps_fixmultiple [OF ne assms(3), of s] assms(2) c
  have "\<exists>s'. fixmultiple env contents s = Inr (Some s') \<and>
            steps (trace s') =
              steps (trace s) @
                map Load (take 5 ?ids) @ [Save 5] @
                map Load (take 5 (drop 5 ?ids)) @ [Save 5] @
                map Load (drop 10 ?ids) @ [Save 2]"
    by simp
  with a b show ?thesis
    by (intro conjI)
qed

theorem fixmultiple_twelve_ids_witness:
  "length (read_ids sample_file) = 12 \<and> argv_c sample_env = Fin 5 \<and>
   (\<forall>w. isWithinTimeinterval sample_env (argv_t sample_env) w) \<and>
   map length (lodash_chunk (read_ids sample_file) (Fin 5)) = [5, 5, 2] \<and>
   (\<exists>s'. fixmultiple sample_env sample_file (init 0) = Inr (Some s') \<and>
      steps (trace s') =
        [Load ''11'', Load ''12'', Load ''13'', Load ''14'', Load ''15'', Save 5,
         Load ''16'', Load ''17'', Load ''18'', Load ''19'', Load ''20'', Save 5,
         Load ''21'', Load ''22'', Save 2])"
proof -
  have l: "length (read_ids sample_file) = 12"
    by (simp add: read_ids_samples sample_ids_def)
  have c: "argv_c sample_env = Fin 5"
    by (simp add: sample_env_def)
  have g: "\<forall>w. isWithinTimeinterval sample_env (argv_t sample_env) w"
    by (simp add: sample_env_def)
  from fixmultiple_twelve_ids [OF l c g, of "init 0"] l c g
  show ?thesis
    by (simp add: read_ids_samples sample_ids_def init_def)
qed

section \<open>A chunk size of zero or below\<close>


text \<open>A negative chunk size is not rejected either: there is no chunk, and the walk is done.\<close>

lemma fixmultiple_negative_chunksize_run:
  "fixmultiple (catalog None (Fin (- 3))) ''2'' (init 0) =
     Inr (Some \<lparr>world = 0,
                trace = [LoggerInfo (ReadIds 1 (Fin (- 3))), LoggerInfo Done],
                pending = []\<rparr>)"
  by (simp add: fixmultiple_def read_ids_samples lodash_chunk_negative sample_run_simps)



end
